theory Spec2Isabelle
  imports Main "HOL-Library.Word"
begin

section \<open>C strings and the formatter used by the mobile variant\<close>

text \<open>
  A \<^verbatim>\<open>const char*\<close> argument is read up to its terminating NUL byte. The model
  takes the bytes handed over as a \<^typ>\<open>string\<close> and reads them the way C does:
  everything from the first NUL on is invisible. NULL pointers are outside the model
  (passing one to \<^verbatim>\<open>%s\<close> is undefined behaviour in C).
\<close>

definition c_str :: "string \<Rightarrow> string" where
  "c_str s = takeWhile (\<lambda>c. c \<noteq> CHR 0x00) s"

definition no_NUL :: "string \<Rightarrow> bool" where
  "no_NUL s = list_all (\<lambda>c. c \<noteq> CHR 0x00) s"

text \<open>
  The only conversion the sources use is \<^verbatim>\<open>%s\<close>: it copies the argument's bytes
  unchanged. Every other byte of the format is copied as it is.
\<close>

fun format :: "string \<Rightarrow> string list \<Rightarrow> string" where
  "format [] args = []"
| "format [c] args = [c]"
| "format (c # d # fs) args =
     (if c = CHR ''%'' \<and> d = CHR ''s'' then
        (case args of
           [] \<Rightarrow> format fs []
         | a # as \<Rightarrow> c_str a @ format fs as)
      else c # format (d # fs) args)"

text \<open>
  \<^verbatim>\<open>snprintf(buf, n, fmt, ...)\<close> stores at most \<open>n - 1\<close> bytes of the formatted
  text and a terminating NUL; the rest of the text is dropped. The value of the model is
  the C string left in the buffer.
\<close>

definition snprintf :: "nat \<Rightarrow> string \<Rightarrow> string list \<Rightarrow> string" where
  "snprintf n fmt args = take (n - 1) (format fmt args)"

section \<open>Mobile variant\<close>

text \<open>
  \<^verbatim>\<open>backend/go/runtime/ffi_android.c\<close> and \<^verbatim>\<open>backend/go/toolbot/ffi_android.c\<close>.
  Each function formats into its own \<^verbatim>\<open>static char result[1024]\<close> and returns a
  pointer to it; the model returns the text the caller reads through that pointer.
\<close>

definition CheckXboxAccount :: "string \<Rightarrow> string \<Rightarrow> string" where
  "CheckXboxAccount apiKey comboFile =
     snprintf 1024
       ''{\"success\":true,\"message\":\"Android check\",\"api_key\":\"%s\",\"combo_file\":\"%s\"}''
       [apiKey, comboFile]"

definition InitializeToolbot :: "string \<Rightarrow> string \<Rightarrow> string" where
  "InitializeToolbot dataDir wordlistDir =
     snprintf 1024
       ''{\"success\":true,\"message\":\"Toolbot initialized\",\"data_dir\":\"%s\",\"wordlist_dir\":\"%s\"}''
       [dataDir, wordlistDir]"

definition RunTelegramBot :: "string \<Rightarrow> string \<Rightarrow> string \<Rightarrow> string" where
  "RunTelegramBot apiId apiHash phone =
     snprintf 1024
       ''{\"success\":true,\"message\":\"Telegram bot\",\"api_id\":\"%s\"}''
       [apiId]"

section \<open>Well-formed envelopes\<close>

text \<open>
  The envelope format of the specification is the brace-delimited textual object
  notation (JSON). The recogniser below follows the JSON grammar: whitespace, the three
  literals, numbers, string literals with their escapes, arrays and objects. It is the
  yardstick the produced texts are measured against; nothing in the sources parses
  envelopes.

  A string literal's value is kept as written between its quotes (escape sequences are
  checked, not decoded); for text without backslashes that is the text itself.
\<close>

datatype json =
    JNull
  | JBool bool
  | JNumber string
  | JString string
  | JArray "json list"
  | JObject "(string \<times> json) list"

definition is_ws :: "char \<Rightarrow> bool" where
  "is_ws c = (c = CHR '' '' \<or> c = CHR 0x09 \<or> c = CHR 0x0A \<or> c = CHR 0x0D)"

definition skip_ws :: "string \<Rightarrow> string" where
  "skip_ws s = dropWhile is_ws s"

definition is_digit :: "char \<Rightarrow> bool" where
  "is_digit c = (c \<in> set ''0123456789'')"

definition is_hex :: "char \<Rightarrow> bool" where
  "is_hex c = (c \<in> set ''0123456789abcdefABCDEF'')"

fun strip_prefix :: "string \<Rightarrow> string \<Rightarrow> string option" where
  "strip_prefix [] s = Some s"
| "strip_prefix (p # ps) [] = None"
| "strip_prefix (p # ps) (c # cs) = (if p = c then strip_prefix ps cs else None)"

text \<open>
  \<open>string_body\<close> reads a string literal after its opening quote: up to the closing
  quote, with \<^verbatim>\<open>\"\<close>, \<^verbatim>\<open>\\\<close>, \<^verbatim>\<open>\/\<close>, \<^verbatim>\<open>\b\<close>, \<^verbatim>\<open>\f\<close>, \<^verbatim>\<open>\n\<close>, \<^verbatim>\<open>\r\<close>, \<^verbatim>\<open>\t\<close> and
  \<^verbatim>\<open>\uXXXX\<close> as the only escapes, and no raw control character.
\<close>

fun string_body :: "string \<Rightarrow> (string \<times> string) option" where
  "string_body [] = None"
| "string_body (c # cs) =
     (if c = CHR 0x22 then Some ([], cs)
      else if c = CHR 0x5C then
        (case cs of
           [] \<Rightarrow> None
         | e # es \<Rightarrow>
             if e \<in> set [CHR 0x22, CHR 0x5C, CHR ''/'', CHR ''b'', CHR ''f'', CHR ''n'', CHR ''r'', CHR ''t'']
             then map_option (\<lambda>(b, r). (c # e # b, r)) (string_body es)
             else if e = CHR ''u'' then
               (case es of
                  h1 # h2 # h3 # h4 # r \<Rightarrow>
                    if is_hex h1 \<and> is_hex h2 \<and> is_hex h3 \<and> is_hex h4
                    then map_option (\<lambda>(b, r'). (c # e # h1 # h2 # h3 # h4 # b, r')) (string_body r)
                    else None
                | _ \<Rightarrow> None)
             else None)
      else if (of_char c :: nat) < 32 then None
      else map_option (\<lambda>(b, r). (c # b, r)) (string_body cs))"

definition digits :: "string \<Rightarrow> string \<times> string" where
  "digits s = (takeWhile is_digit s, dropWhile is_digit s)"

definition fraction :: "string \<Rightarrow> (string \<times> string) option" where
  "fraction s =
     (case s of
        [] \<Rightarrow> Some ([], s)
      | c # r \<Rightarrow>
          if c = CHR ''.'' then
            (case digits r of (d, r') \<Rightarrow> if d = [] then None else Some (c # d, r'))
          else Some ([], s))"

definition exponent :: "string \<Rightarrow> (string \<times> string) option" where
  "exponent s =
     (case s of
        [] \<Rightarrow> Some ([], s)
      | c # r \<Rightarrow>
          if c = CHR ''e'' \<or> c = CHR ''E'' then
            (case (case r of
                     [] \<Rightarrow> ([], r)
                   | g # r1 \<Rightarrow> if g = CHR ''+'' \<or> g = CHR ''-'' then ([g], r1) else ([], r)) of
               (sg, r2) \<Rightarrow>
                 (case digits r2 of (d, r') \<Rightarrow> if d = [] then None else Some (c # sg @ d, r')))
          else Some ([], s))"

definition number :: "string \<Rightarrow> (string \<times> string) option" where
  "number s =
     (case (case s of
              [] \<Rightarrow> ([], s)
            | c # r \<Rightarrow> if c = CHR ''-'' then ([c], r) else ([], s)) of
        (sg, s1) \<Rightarrow>
          (case digits s1 of
             (ip, s2) \<Rightarrow>
               if ip = [] \<or> (1 < length ip \<and> hd ip = CHR ''0'') then None
               else
                 (case fraction s2 of
                    None \<Rightarrow> None
                  | Some (fp, s3) \<Rightarrow>
                      (case exponent s3 of
                         None \<Rightarrow> None
                       | Some (ep, s4) \<Rightarrow> Some (sg @ ip @ fp @ ep, s4)))))"

definition expect :: "char \<Rightarrow> string \<Rightarrow> string option" where
  "expect c s = (case skip_ws s of [] \<Rightarrow> None | d # r \<Rightarrow> if d = c then Some r else None)"

text \<open>
  The recursive descent. The first argument bounds the number of nested calls; every
  call is made after at least one character has been consumed, so the length of the
  text (plus one) is enough for every text.
\<close>

fun parse_value :: "nat \<Rightarrow> string \<Rightarrow> (json \<times> string) option"
  and parse_members :: "nat \<Rightarrow> string \<Rightarrow> ((string \<times> json) list \<times> string) option"
  and parse_elements :: "nat \<Rightarrow> string \<Rightarrow> (json list \<times> string) option"
where
  "parse_value 0 s = None"
| "parse_value (Suc n) s =
     (case skip_ws s of
        [] \<Rightarrow> None
      | c # r \<Rightarrow>
          if c = CHR ''{'' then
            (case expect (CHR ''}'') r of
               Some r' \<Rightarrow> Some (JObject [], r')
             | None \<Rightarrow> map_option (\<lambda>(kvs, r'). (JObject kvs, r')) (parse_members n r))
          else if c = CHR ''['' then
            (case expect (CHR '']'') r of
               Some r' \<Rightarrow> Some (JArray [], r')
             | None \<Rightarrow> map_option (\<lambda>(vs, r'). (JArray vs, r')) (parse_elements n r))
          else if c = CHR 0x22 then
            map_option (\<lambda>(b, r'). (JString b, r')) (string_body r)
          else if c = CHR ''t'' then
            map_option (\<lambda>r'. (JBool True, r')) (strip_prefix ''rue'' r)
          else if c = CHR ''f'' then
            map_option (\<lambda>r'. (JBool False, r')) (strip_prefix ''alse'' r)
          else if c = CHR ''n'' then
            map_option (\<lambda>r'. (JNull, r')) (strip_prefix ''ull'' r)
          else map_option (\<lambda>(t, r'). (JNumber t, r')) (number (c # r)))"
| "parse_members 0 s = None"
| "parse_members (Suc n) s =
     (case expect (CHR 0x22) s of
        None \<Rightarrow> None
      | Some r \<Rightarrow>
          (case string_body r of
             None \<Rightarrow> None
           | Some (k, r1) \<Rightarrow>
               (case expect (CHR '':'') r1 of
                  None \<Rightarrow> None
                | Some r2 \<Rightarrow>
                    (case parse_value n r2 of
                       None \<Rightarrow> None
                     | Some (v, r3) \<Rightarrow>
                         (case skip_ws r3 of
                            [] \<Rightarrow> None
                          | d # r4 \<Rightarrow>
                              if d = CHR '','' then
                                map_option (\<lambda>(kvs, r5). ((k, v) # kvs, r5)) (parse_members n r4)
                              else if d = CHR ''}'' then Some ([(k, v)], r4)
                              else None)))))"
| "parse_elements 0 s = None"
| "parse_elements (Suc n) s =
     (case parse_value n s of
        None \<Rightarrow> None
      | Some (v, r) \<Rightarrow>
          (case skip_ws r of
             [] \<Rightarrow> None
           | d # r1 \<Rightarrow>
               if d = CHR '','' then
                 map_option (\<lambda>(vs, r2). (v # vs, r2)) (parse_elements n r1)
               else if d = CHR '']'' then Some ([v], r1)
               else None))"

definition parse_json :: "string \<Rightarrow> json option" where
  "parse_json s =
     (case parse_value (Suc (length s)) s of
        None \<Rightarrow> None
      | Some (v, r) \<Rightarrow> if skip_ws r = [] then Some v else None)"

text \<open>
  An envelope is an object with a boolean \<open>success\<close> field at its top level;
  \<open>envelope_fields\<close> gives the fields of a text that is one.
\<close>

definition envelope_fields :: "string \<Rightarrow> (string \<times> json) list option" where
  "envelope_fields s =
     (case parse_json s of
        Some (JObject kvs) \<Rightarrow>
          (case map_of kvs ''success'' of
             Some (JBool b) \<Rightarrow> Some kvs
           | _ \<Rightarrow> None)
      | _ \<Rightarrow> None)"

definition well_formed_envelope :: "string \<Rightarrow> bool" where
  "well_formed_envelope s = (envelope_fields s \<noteq> None)"


text \<open>
  Text that needs no escaping: printable ASCII other than the quote and the backslash.
\<close>

definition plain_char :: "char \<Rightarrow> bool" where
  "plain_char c =
     (32 \<le> (of_char c :: nat) \<and> (of_char c :: nat) < 127 \<and> c \<noteq> CHR 0x22 \<and> c \<noteq> CHR 0x5C)"

definition plain_text :: "string \<Rightarrow> bool" where
  "plain_text s = list_all plain_char s"

section \<open>Full variant: the embedded runtime\<close>

text \<open>
  \<^verbatim>\<open>backend/python/xtools_ffi.c\<close> is written against the C interface of the embedded
  scripting runtime. The model keeps the values, the exception state and the search
  path the code touches. Reference counts are not modelled, and allocation never fails.
  The runtime's functions are modelled after their documented behaviour.
\<close>

datatype pyexc =
    TypeError
  | ValueError
  | SystemError
  | SystemExit
  | AttributeError
  | ModuleNotFoundError
  | Raised string

text \<open>
  Runtime values. \<open>PyUnicode\<close> carries the UTF-8 bytes of a text value (a text value
  without a UTF-8 encoding is not represented; the marshaller rejects it like any other
  value it cannot convert); \<open>PyFunction\<close> stands for any callable object, named by a
  number.
\<close>

datatype pyobj =
    PyNone
  | PyBool bool
  | PyLong int
  | PyUnicode string
  | PyBytes string
  | PyList "pyobj list"
  | PyTuple "pyobj list"
  | PyFunction nat

type_synonym pymodule = "(string \<times> pyobj) list"

text \<open>
  The sibling runtime is not part of the repository; it is a parameter of the model:
  what importing a module name under a given search path gives (an exception, or the
  module's attributes), and what calling a callable on an argument tuple gives (an
  exception, or the returned object). The sibling is the same over a run of calls (the
  runtime's cache of imported modules belongs to it), and its own code is taken to leave
  the search path and the error indicator alone.
\<close>

record sibling =
  import_module :: "string list \<Rightarrow> string \<Rightarrow> pyexc + pymodule"
  call_function :: "nat \<Rightarrow> pyobj list \<Rightarrow> pyexc + pyobj"

text \<open>
  What the code asks of the sibling runtime is recorded, in order: every import
  attempt, every attribute lookup on the module and every call of a callable. The
  record is what makes "nothing was imported, looked up or called" a statement about
  the state.
\<close>

datatype event =
    Import string
  | GetAttr string
  | Call nat "pyobj list"

text \<open>
  The interpreter state the code reads and writes: \<^verbatim>\<open>sys.path\<close>, the error indicator
  (the pending exception, if any), what \<^verbatim>\<open>PyErr_Print\<close> has written to the
  diagnostic stream, the record of what was asked of the sibling, and whether the
  process has exited. \<^verbatim>\<open>sys.path\<close> is the list of directory names the interpreter keeps.
\<close>

record interp =
  sys_path :: "string list"
  error_indicator :: "pyexc option"
  stderr :: "pyexc list"
  events :: "event list"
  terminated :: bool

text \<open>
  A \<^verbatim>\<open>PyObject*\<close> result with the state it leaves; \<open>None\<close> is \<^verbatim>\<open>NULL\<close>. A function
  that does not return because the process exited has the result \<open>None\<close> and a
  terminated state.
\<close>

type_synonym 'a result = "'a option \<times> interp"

subsection \<open>The runtime's interface, as far as the code uses it\<close>

text \<open>
  Format unit \<^verbatim>\<open>s\<close>: the argument has to be a text value without an embedded NUL;
  the C variable receives a pointer to its UTF-8 bytes.
\<close>

fun convert_s :: "pyobj \<Rightarrow> pyexc + string" where
  "convert_s (PyUnicode s) = (if no_NUL s then Inr s else Inl ValueError)"
| "convert_s v = Inl TypeError"

fun convert_items :: "string \<Rightarrow> pyobj list \<Rightarrow> pyexc + string list" where
  "convert_items [] [] = Inr []"
| "convert_items (f # fs) (v # vs) =
     (if f = CHR ''s'' then
        (case convert_s v of
           Inl e \<Rightarrow> Inl e
         | Inr s \<Rightarrow>
             (case convert_items fs vs of
                Inl e \<Rightarrow> Inl e
              | Inr ss \<Rightarrow> Inr (s # ss)))
      else Inl SystemError)"
| "convert_items fs vs = Inl TypeError"

text \<open>
  \<^verbatim>\<open>PyArg_ParseTuple(args, fmt, ...)\<close>: the number of arguments is checked against the
  number of format units first, then the arguments are converted from left to right.
  A failure leaves the exception pending and gives 0; the model gives the converted
  values in place of writing them through the pointers.
\<close>

definition PyArg_ParseTuple :: "pyobj list \<Rightarrow> string \<Rightarrow> interp \<Rightarrow> string list result" where
  "PyArg_ParseTuple args fmt st =
     (if length args \<noteq> length fmt then (None, st\<lparr>error_indicator := Some TypeError\<rparr>)
      else
        (case convert_items fmt args of
           Inl e \<Rightarrow> (None, st\<lparr>error_indicator := Some e\<rparr>)
         | Inr ss \<Rightarrow> (Some ss, st)))"

definition PyUnicode_FromString :: "string \<Rightarrow> pyobj" where
  "PyUnicode_FromString u = PyUnicode (c_str u)"

definition PyTuple_Pack :: "pyobj list \<Rightarrow> pyobj list" where
  "PyTuple_Pack vs = vs"

text \<open>\<^verbatim>\<open>PyList_Append(PySys_GetObject("path"), path)\<close>.\<close>

definition PyList_Append_sys_path :: "pyobj \<Rightarrow> interp \<Rightarrow> interp" where
  "PyList_Append_sys_path path st =
     (case path of
        PyUnicode d \<Rightarrow> st\<lparr>sys_path := sys_path st @ [d]\<rparr>
      | _ \<Rightarrow> st)"

definition PyImport_ImportModule :: "sibling \<Rightarrow> string \<Rightarrow> interp \<Rightarrow> pymodule result" where
  "PyImport_ImportModule w name st =
     (let st1 = st\<lparr>events := events st @ [Import name]\<rparr>
      in
        case import_module w (sys_path st) name of
          Inl e \<Rightarrow> (None, st1\<lparr>error_indicator := Some e\<rparr>)
        | Inr m \<Rightarrow> (Some m, st1))"

definition PyObject_GetAttrString :: "pymodule \<Rightarrow> string \<Rightarrow> interp \<Rightarrow> pyobj result" where
  "PyObject_GetAttrString m name st =
     (let st1 = st\<lparr>events := events st @ [GetAttr name]\<rparr>
      in
        case map_of m name of
          None \<Rightarrow> (None, st1\<lparr>error_indicator := Some AttributeError\<rparr>)
        | Some v \<Rightarrow> (Some v, st1))"

fun PyCallable_Check :: "pyobj \<Rightarrow> bool" where
  "PyCallable_Check (PyFunction k) = True"
| "PyCallable_Check v = False"

definition PyObject_CallObject :: "sibling \<Rightarrow> pyobj \<Rightarrow> pyobj list \<Rightarrow> interp \<Rightarrow> pyobj result" where
  "PyObject_CallObject w f args st =
     (case f of
        PyFunction k \<Rightarrow>
          (let st1 = st\<lparr>events := events st @ [Call k args]\<rparr>
           in
             case call_function w k args of
               Inl e \<Rightarrow> (None, st1\<lparr>error_indicator := Some e\<rparr>)
             | Inr r \<Rightarrow> (Some r, st1))
      | _ \<Rightarrow> (None, st\<lparr>error_indicator := Some TypeError\<rparr>))"

text \<open>
  \<^verbatim>\<open>PyErr_Print\<close> writes the pending exception to the diagnostic stream and clears it,
  unless the exception is \<^verbatim>\<open>SystemExit\<close>: then it exits the process and does not
  return. \<open>Inr\<close> is the state it returns in, \<open>Inl\<close> the state the process exited in.
\<close>

definition PyErr_Print :: "interp \<Rightarrow> interp + interp" where
  "PyErr_Print st =
     (case error_indicator st of
        None \<Rightarrow> Inr st
      | Some e \<Rightarrow>
          if e = SystemExit then Inl (st\<lparr>terminated := True\<rparr>)
          else Inr (st\<lparr>error_indicator := None, stderr := stderr st @ [e]\<rparr>))"

subsection \<open>The locator: \<^verbatim>\<open>call_tool\<close>\<close>

text \<open>
  The well-known sibling directory, as \<open>call_tool\<close> spells it. Where \<^verbatim>\<open>PyErr_Print\<close>
  exits the process the \<^verbatim>\<open>return\<close> after it is never reached: \<open>call_tool\<close> hands
  nothing back and the state is terminated.
\<close>

definition sibling_dir :: string where
  "sibling_dir = ''/workspace/project/xtools/backend/python''"

definition call_tool :: "sibling \<Rightarrow> string \<Rightarrow> pyobj list \<Rightarrow> interp \<Rightarrow> pyobj result" where
  "call_tool w func_name args st =
     (let path = PyUnicode_FromString ''/workspace/project/xtools/backend/python'';
          st1 = PyList_Append_sys_path path st
      in
        case PyImport_ImportModule w ''xtools_ffi_module'' st1 of
          (None, st2) \<Rightarrow>
            (case PyErr_Print st2 of
               Inl st3 \<Rightarrow> (None, st3)
             | Inr st3 \<Rightarrow>
                 (Some (PyUnicode_FromString ''{\"success\":false,\"error\":\"Module not found\"}''),
                  st3))
        | (Some pModule, st2) \<Rightarrow>
            (case PyObject_GetAttrString pModule func_name st2 of
               (None, st3) \<Rightarrow>
                 (Some (PyUnicode_FromString ''{\"success\":false,\"error\":\"Function not found\"}''),
                  st3)
             | (Some pFunc, st3) \<Rightarrow>
                 if \<not> PyCallable_Check pFunc then
                   (Some (PyUnicode_FromString ''{\"success\":false,\"error\":\"Function not found\"}''),
                    st3)
                 else
                   (case PyObject_CallObject w pFunc args st3 of
                      (None, st4) \<Rightarrow>
                        (case PyErr_Print st4 of
                           Inl st5 \<Rightarrow> (None, st5)
                         | Inr st5 \<Rightarrow>
                             (Some (PyUnicode_FromString ''{\"success\":false,\"error\":\"Call failed\"}''),
                              st5))
                    | (Some pResult, st4) \<Rightarrow> (Some pResult, st4))))"

subsection \<open>The entry points\<close>

text \<open>
  Each entry function parses its argument tuple, returns \<^verbatim>\<open>NULL\<close> when that fails, and
  otherwise packs fresh text objects into a tuple and hands it to \<open>call_tool\<close>. A
  successful parse gives exactly one value per format unit, so the last branch of each
  definition is never taken.
\<close>

definition ffi_gofile_upload :: "sibling \<Rightarrow> pyobj list \<Rightarrow> interp \<Rightarrow> pyobj result" where
  "ffi_gofile_upload w args st =
     (case PyArg_ParseTuple args ''s'' st of
        (None, st1) \<Rightarrow> (None, st1)
      | (Some [file_path], st1) \<Rightarrow>
          call_tool w ''gofile_upload_func'' (PyTuple_Pack [PyUnicode_FromString file_path]) st1
      | (Some vs, st1) \<Rightarrow> (None, st1))"

definition ffi_run_sort :: "sibling \<Rightarrow> pyobj list \<Rightarrow> interp \<Rightarrow> pyobj result" where
  "ffi_run_sort w args st =
     (case PyArg_ParseTuple args ''s'' st of
        (None, st1) \<Rightarrow> (None, st1)
      | (Some [file_path], st1) \<Rightarrow>
          call_tool w ''run_sort'' (PyTuple_Pack [PyUnicode_FromString file_path]) st1
      | (Some vs, st1) \<Rightarrow> (None, st1))"

definition ffi_run_filter :: "sibling \<Rightarrow> pyobj list \<Rightarrow> interp \<Rightarrow> pyobj result" where
  "ffi_run_filter w args st =
     (case PyArg_ParseTuple args ''s'' st of
        (None, st1) \<Rightarrow> (None, st1)
      | (Some [file_path], st1) \<Rightarrow>
          call_tool w ''run_filter'' (PyTuple_Pack [PyUnicode_FromString file_path]) st1
      | (Some vs, st1) \<Rightarrow> (None, st1))"

definition ffi_run_dedup :: "sibling \<Rightarrow> pyobj list \<Rightarrow> interp \<Rightarrow> pyobj result" where
  "ffi_run_dedup w args st =
     (case PyArg_ParseTuple args ''s'' st of
        (None, st1) \<Rightarrow> (None, st1)
      | (Some [file_path], st1) \<Rightarrow>
          call_tool w ''run_dedup'' (PyTuple_Pack [PyUnicode_FromString file_path]) st1
      | (Some vs, st1) \<Rightarrow> (None, st1))"

definition ffi_run_split :: "sibling \<Rightarrow> pyobj list \<Rightarrow> interp \<Rightarrow> pyobj result" where
  "ffi_run_split w args st =
     (case PyArg_ParseTuple args ''s'' st of
        (None, st1) \<Rightarrow> (None, st1)
      | (Some [file_path], st1) \<Rightarrow>
          call_tool w ''run_split'' (PyTuple_Pack [PyUnicode_FromString file_path]) st1
      | (Some vs, st1) \<Rightarrow> (None, st1))"

definition ffi_run_remove :: "sibling \<Rightarrow> pyobj list \<Rightarrow> interp \<Rightarrow> pyobj result" where
  "ffi_run_remove w args st =
     (case PyArg_ParseTuple args ''ss'' st of
        (None, st1) \<Rightarrow> (None, st1)
      | (Some [file_path, pattern], st1) \<Rightarrow>
          call_tool w ''run_remove''
            (PyTuple_Pack [PyUnicode_FromString file_path, PyUnicode_FromString pattern]) st1
      | (Some vs, st1) \<Rightarrow> (None, st1))"

definition ffi_discord_bot :: "sibling \<Rightarrow> pyobj list \<Rightarrow> interp \<Rightarrow> pyobj result" where
  "ffi_discord_bot w args st =
     (case PyArg_ParseTuple args ''sssss'' st of
        (None, st1) \<Rightarrow> (None, st1)
      | (Some [token, imap_host, imap_user, imap_pass, channel_id], st1) \<Rightarrow>
          call_tool w ''discord_bot''
            (PyTuple_Pack
               [PyUnicode_FromString token,
                PyUnicode_FromString imap_host,
                PyUnicode_FromString imap_user,
                PyUnicode_FromString imap_pass,
                PyUnicode_FromString channel_id]) st1
      | (Some vs, st1) \<Rightarrow> (None, st1))"

definition ffi_telegram_bot :: "sibling \<Rightarrow> pyobj list \<Rightarrow> interp \<Rightarrow> pyobj result" where
  "ffi_telegram_bot w args st =
     (case PyArg_ParseTuple args ''sss'' st of
        (None, st1) \<Rightarrow> (None, st1)
      | (Some [api_id, api_hash, phone], st1) \<Rightarrow>
          call_tool w ''telegram_bot''
            (PyTuple_Pack
               [PyUnicode_FromString api_id,
                PyUnicode_FromString api_hash,
                PyUnicode_FromString phone]) st1
      | (Some vs, st1) \<Rightarrow> (None, st1))"

definition ffi_run_scraper :: "sibling \<Rightarrow> pyobj list \<Rightarrow> interp \<Rightarrow> pyobj result" where
  "ffi_run_scraper w args st =
     (case PyArg_ParseTuple args ''s'' st of
        (None, st1) \<Rightarrow> (None, st1)
      | (Some [url], st1) \<Rightarrow>
          call_tool w ''run_scraper'' (PyTuple_Pack [PyUnicode_FromString url]) st1
      | (Some vs, st1) \<Rightarrow> (None, st1))"

definition ffi_run_combo :: "sibling \<Rightarrow> pyobj list \<Rightarrow> interp \<Rightarrow> pyobj result" where
  "ffi_run_combo w args st =
     (case PyArg_ParseTuple args ''s'' st of
        (None, st1) \<Rightarrow> (None, st1)
      | (Some [file_path], st1) \<Rightarrow>
          call_tool w ''run_combo'' (PyTuple_Pack [PyUnicode_FromString file_path]) st1
      | (Some vs, st1) \<Rightarrow> (None, st1))"

definition ffi_run_captcha :: "sibling \<Rightarrow> pyobj list \<Rightarrow> interp \<Rightarrow> pyobj result" where
  "ffi_run_captcha w args st =
     (case PyArg_ParseTuple args ''s'' st of
        (None, st1) \<Rightarrow> (None, st1)
      | (Some [image_path], st1) \<Rightarrow>
          call_tool w ''run_captcha'' (PyTuple_Pack [PyUnicode_FromString image_path]) st1
      | (Some vs, st1) \<Rightarrow> (None, st1))"

text \<open>
  The method table of the module \<^verbatim>\<open>xtools_ffi\<close>: external name and entry function.
  Every entry is registered \<^verbatim>\<open>METH_VARARGS\<close>, so the function receives the positional
  arguments as a tuple.
\<close>

definition XToolsMethods :: "(string \<times> (sibling \<Rightarrow> pyobj list \<Rightarrow> interp \<Rightarrow> pyobj result)) list" where
  "XToolsMethods =
     [(''gofile_upload'', ffi_gofile_upload),
      (''run_sort'', ffi_run_sort),
      (''run_filter'', ffi_run_filter),
      (''run_dedup'', ffi_run_dedup),
      (''run_split'', ffi_run_split),
      (''run_remove'', ffi_run_remove),
      (''discord_bot'', ffi_discord_bot),
      (''telegram_bot'', ffi_telegram_bot),
      (''run_scraper'', ffi_run_scraper),
      (''run_combo'', ffi_run_combo),
      (''run_captcha'', ffi_run_captcha)]"

text \<open>
  \<open>entry_call\<close> is the C-level call: the name is resolved in the method table and the
  entry function runs on the tuple; its value is what the C function returns, with the
  state it leaves. A name the module does not have is an attribute error raised before
  any entry function runs.
\<close>

definition entry_call :: "sibling \<Rightarrow> string \<Rightarrow> pyobj list \<Rightarrow> interp \<Rightarrow> pyobj result" where
  "entry_call w name args st =
     (case map_of XToolsMethods name of
        None \<Rightarrow> (None, st\<lparr>error_indicator := Some AttributeError\<rparr>)
      | Some f \<Rightarrow> f w args st)"

text \<open>
  The interpreter checks what a C function returned before the host sees it: an object
  is handed over only if no exception is pending, \<^verbatim>\<open>NULL\<close> raises the pending
  exception, and the two inconsistent combinations (an object with an exception pending,
  \<^verbatim>\<open>NULL\<close> with none) raise \<^verbatim>\<open>SystemError\<close> in place of the result. Nothing is handed
  over by a process that has exited.
\<close>

definition Py_CheckFunctionResult :: "pyobj result \<Rightarrow> pyobj result" where
  "Py_CheckFunctionResult res =
     (case res of
        (r, st) \<Rightarrow>
          if terminated st then (None, st)
          else
            (case r of
               None \<Rightarrow>
                 (case error_indicator st of
                    None \<Rightarrow> (None, st\<lparr>error_indicator := Some SystemError\<rparr>)
                  | Some e \<Rightarrow> (None, st))
             | Some v \<Rightarrow>
                 (case error_indicator st of
                    None \<Rightarrow> (Some v, st)
                  | Some e \<Rightarrow> (None, st\<lparr>error_indicator := Some SystemError\<rparr>))))"

text \<open>
  What the host gets from \<^verbatim>\<open>xtools_ffi.name(*args)\<close>: the checked result of the entry
  function. \<open>None\<close> with an exception pending is that exception raised in the host.
\<close>

definition host_call :: "sibling \<Rightarrow> string \<Rightarrow> pyobj list \<Rightarrow> interp \<Rightarrow> pyobj result" where
  "host_call w name args st = Py_CheckFunctionResult (entry_call w name args st)"

text \<open>
  The interpreter enters a C function only while the process runs and no exception is
  pending.
\<close>

definition at_entry :: "interp \<Rightarrow> bool" where
  "at_entry st = (error_indicator st = None \<and> \<not> terminated st)"



subsection \<open>What the specification says about the surface\<close>

text \<open>
  The table of entry points as the specification gives it: external name, arity,
  implementation name. It is compared with the method table and the entry functions
  above.
\<close>

definition dispatch_table_spec :: "(string \<times> nat \<times> string) list" where
  "dispatch_table_spec =
     [(''gofile_upload'', 1, ''gofile_upload_func''),
      (''run_sort'', 1, ''run_sort''),
      (''run_filter'', 1, ''run_filter''),
      (''run_dedup'', 1, ''run_dedup''),
      (''run_split'', 1, ''run_split''),
      (''run_remove'', 2, ''run_remove''),
      (''discord_bot'', 5, ''discord_bot''),
      (''telegram_bot'', 3, ''telegram_bot''),
      (''run_scraper'', 1, ''run_scraper''),
      (''run_combo'', 1, ''run_combo''),
      (''run_captcha'', 1, ''run_captcha'')]"

text \<open>
  A correctly shaped argument tuple for arity \<open>n\<close>: exactly \<open>n\<close> values, each a text
  value the marshaller can hand to C (no embedded NUL).
\<close>

fun is_text :: "pyobj \<Rightarrow> bool" where
  "is_text (PyUnicode s) = no_NUL s"
| "is_text v = False"

definition text_tuple :: "nat \<Rightarrow> pyobj list \<Rightarrow> bool" where
  "text_tuple n args = (length args = n \<and> list_all is_text args)"


text \<open>
  The common shape of the eleven entry functions: parse with a format, locate and call
  an implementation name.
\<close>

definition dispatch :: "string \<Rightarrow> string \<Rightarrow> sibling \<Rightarrow> pyobj list \<Rightarrow> interp \<Rightarrow> pyobj result" where
  "dispatch fmt impl w args st =
     (case PyArg_ParseTuple args fmt st of
        (None, st1) \<Rightarrow> (None, st1)
      | (Some vs, st1) \<Rightarrow> call_tool w impl (PyTuple_Pack (map PyUnicode_FromString vs)) st1)"

text \<open>The three texts \<open>call_tool\<close> builds itself.\<close>

definition module_not_found_text :: string where
  "module_not_found_text = ''{\"success\":false,\"error\":\"Module not found\"}''"

definition function_not_found_text :: string where
  "function_not_found_text = ''{\"success\":false,\"error\":\"Function not found\"}''"

definition call_failed_text :: string where
  "call_failed_text = ''{\"success\":false,\"error\":\"Call failed\"}''"

definition is_envelope :: "pyobj \<Rightarrow> bool" where
  "is_envelope v = (case v of PyUnicode s \<Rightarrow> well_formed_envelope s | _ \<Rightarrow> False)"


subsection \<open>Concrete siblings and a start state, for the examples\<close>

text \<open>
  \<open>demo_sibling\<close> is importable once the well-known directory is on the search path.
  It has a \<open>run_remove\<close> that answers with an envelope, a \<open>run_dedup\<close> that raises, a
  \<open>run_filter\<close> that returns a number, a \<open>run_scraper\<close> that returns a broken text, a
  \<open>discord_bot\<close> that returns the argument tuple it was given, a \<open>run_captcha\<close> that
  raises \<^verbatim>\<open>SystemExit\<close>, a \<open>run_split\<close> that is not callable, and no \<open>run_sort\<close>.
  \<open>absent_sibling\<close> cannot be imported at all.
\<close>

definition demo_module :: pymodule where
  "demo_module =
     [(''run_remove'', PyFunction 0),
      (''run_dedup'', PyFunction 1),
      (''run_filter'', PyFunction 2),
      (''run_scraper'', PyFunction 3),
      (''discord_bot'', PyFunction 4),
      (''run_captcha'', PyFunction 5),
      (''run_split'', PyLong 7)]"

definition demo_sibling :: sibling where
  "demo_sibling =
     \<lparr>import_module = (\<lambda>path name.
        if name = ''xtools_ffi_module'' \<and> ''/workspace/project/xtools/backend/python'' \<in> set path
        then Inr demo_module else Inl ModuleNotFoundError),
      call_function = (\<lambda>k args.
        if k = 0 then Inr (PyUnicode ''{\"success\":true,\"removed\":3}'')
        else if k = 1 then Inl (Raised ''boom'')
        else if k = 2 then Inr (PyLong 42)
        else if k = 3 then Inr (PyUnicode ''{\"success\":'')
        else if k = 5 then Inl SystemExit
        else Inr (PyTuple args))\<rparr>"


definition interp0 :: interp where
  "interp0 =
     \<lparr>sys_path = [''/usr/lib/python3''], error_indicator = None, stderr = [], events = [],
      terminated = False\<rparr>"

section \<open>Stub variant\<close>

text \<open>
  \<^verbatim>\<open>backend/python/xtools_ffi_stub.c\<close>. Every exported function is declared with an
  empty parameter list and an empty body: whatever is passed, it returns nothing and
  leaves the state of the process as it was. The model takes the arguments and the state
  at any type.
\<close>

definition gofile_upload :: "'a \<Rightarrow> 's \<Rightarrow> unit \<times> 's" where
  "gofile_upload args s = ((), s)"

definition run_sort :: "'a \<Rightarrow> 's \<Rightarrow> unit \<times> 's" where
  "run_sort args s = ((), s)"

definition run_filter :: "'a \<Rightarrow> 's \<Rightarrow> unit \<times> 's" where
  "run_filter args s = ((), s)"

definition run_dedup :: "'a \<Rightarrow> 's \<Rightarrow> unit \<times> 's" where
  "run_dedup args s = ((), s)"

definition run_split :: "'a \<Rightarrow> 's \<Rightarrow> unit \<times> 's" where
  "run_split args s = ((), s)"

definition run_remove :: "'a \<Rightarrow> 's \<Rightarrow> unit \<times> 's" where
  "run_remove args s = ((), s)"

definition discord_bot :: "'a \<Rightarrow> 's \<Rightarrow> unit \<times> 's" where
  "discord_bot args s = ((), s)"

definition telegram_bot :: "'a \<Rightarrow> 's \<Rightarrow> unit \<times> 's" where
  "telegram_bot args s = ((), s)"

definition run_scraper :: "'a \<Rightarrow> 's \<Rightarrow> unit \<times> 's" where
  "run_scraper args s = ((), s)"

definition run_combo :: "'a \<Rightarrow> 's \<Rightarrow> unit \<times> 's" where
  "run_combo args s = ((), s)"

definition run_captcha :: "'a \<Rightarrow> 's \<Rightarrow> unit \<times> 's" where
  "run_captcha args s = ((), s)"

text \<open>The symbols marked \<^verbatim>\<open>__declspec(dllexport)\<close>, in the order of the file.\<close>

definition stub_exports :: "(string \<times> ('a \<Rightarrow> 's \<Rightarrow> unit \<times> 's)) list" where
  "stub_exports =
     [(''gofile_upload'', gofile_upload),
      (''run_sort'', run_sort),
      (''run_filter'', run_filter),
      (''run_dedup'', run_dedup),
      (''run_split'', run_split),
      (''run_remove'', run_remove),
      (''discord_bot'', discord_bot),
      (''telegram_bot'', telegram_bot),
      (''run_scraper'', run_scraper),
      (''run_combo'', run_combo),
      (''run_captcha'', run_captcha)]"

text \<open>
  Modelled from the spec: the macro \<^verbatim>\<open>TRUE\<close> and the types \<^verbatim>\<open>BOOL\<close>, \<^verbatim>\<open>DWORD\<close>,
  \<^verbatim>\<open>HINSTANCE\<close> and \<^verbatim>\<open>LPVOID\<close> come from platform headers that are not among the
  sources. The load callback is to succeed unconditionally, and success is the non-zero
  value \<^verbatim>\<open>TRUE\<close>, the integer 1 of those headers. \<^verbatim>\<open>DWORD\<close> is a 32-bit word; the two
  handles are kept abstract.
\<close>

definition TRUE :: int where
  "TRUE = 1"

definition DllMain :: "'h \<Rightarrow> 32 word \<Rightarrow> 'p \<Rightarrow> int" where
  "DllMain hinstDLL fdwReason lpvReserved = TRUE"

section \<open>Facts about the marshaller and the entry functions\<close>

lemma convert_items_length: "convert_items fmt args = Inr ss \<Longrightarrow> length ss = length fmt"
  by (induction fmt args arbitrary: ss rule: convert_items.induct)
     (auto split: if_splits sum.splits)

lemma parse_result_length:
  "PyArg_ParseTuple args fmt st = (Some vs, st1) \<Longrightarrow> length vs = length fmt"
  by (auto simp: PyArg_ParseTuple_def convert_items_length split: if_splits sum.splits)

lemma ffi_gofile_upload_dispatch: "ffi_gofile_upload = dispatch ''s'' ''gofile_upload_func''"
  by (intro ext)
     (auto simp: ffi_gofile_upload_def dispatch_def dest!: parse_result_length
           split: prod.splits option.splits list.splits)

lemma ffi_run_sort_dispatch: "ffi_run_sort = dispatch ''s'' ''run_sort''"
  by (intro ext)
     (auto simp: ffi_run_sort_def dispatch_def dest!: parse_result_length
           split: prod.splits option.splits list.splits)

lemma ffi_run_filter_dispatch: "ffi_run_filter = dispatch ''s'' ''run_filter''"
  by (intro ext)
     (auto simp: ffi_run_filter_def dispatch_def dest!: parse_result_length
           split: prod.splits option.splits list.splits)

lemma ffi_run_dedup_dispatch: "ffi_run_dedup = dispatch ''s'' ''run_dedup''"
  by (intro ext)
     (auto simp: ffi_run_dedup_def dispatch_def dest!: parse_result_length
           split: prod.splits option.splits list.splits)

lemma ffi_run_split_dispatch: "ffi_run_split = dispatch ''s'' ''run_split''"
  by (intro ext)
     (auto simp: ffi_run_split_def dispatch_def dest!: parse_result_length
           split: prod.splits option.splits list.splits)

lemma ffi_run_remove_dispatch: "ffi_run_remove = dispatch ''ss'' ''run_remove''"
  by (intro ext)
     (auto simp: ffi_run_remove_def dispatch_def dest!: parse_result_length
           split: prod.splits option.splits list.splits)

lemma ffi_discord_bot_dispatch: "ffi_discord_bot = dispatch ''sssss'' ''discord_bot''"
  by (intro ext)
     (auto simp: ffi_discord_bot_def dispatch_def dest!: parse_result_length
           split: prod.splits option.splits list.splits)

lemma ffi_telegram_bot_dispatch: "ffi_telegram_bot = dispatch ''sss'' ''telegram_bot''"
  by (intro ext)
     (auto simp: ffi_telegram_bot_def dispatch_def dest!: parse_result_length
           split: prod.splits option.splits list.splits)

lemma ffi_run_scraper_dispatch: "ffi_run_scraper = dispatch ''s'' ''run_scraper''"
  by (intro ext)
     (auto simp: ffi_run_scraper_def dispatch_def dest!: parse_result_length
           split: prod.splits option.splits list.splits)

lemma ffi_run_combo_dispatch: "ffi_run_combo = dispatch ''s'' ''run_combo''"
  by (intro ext)
     (auto simp: ffi_run_combo_def dispatch_def dest!: parse_result_length
           split: prod.splits option.splits list.splits)

lemma ffi_run_captcha_dispatch: "ffi_run_captcha = dispatch ''s'' ''run_captcha''"
  by (intro ext)
     (auto simp: ffi_run_captcha_def dispatch_def dest!: parse_result_length
           split: prod.splits option.splits list.splits)

lemmas ffi_dispatch =
  ffi_gofile_upload_dispatch ffi_run_sort_dispatch ffi_run_filter_dispatch
  ffi_run_dedup_dispatch ffi_run_split_dispatch ffi_run_remove_dispatch
  ffi_discord_bot_dispatch ffi_telegram_bot_dispatch ffi_run_scraper_dispatch
  ffi_run_combo_dispatch ffi_run_captcha_dispatch

lemma replicate_small:
  "replicate 1 c = [c]" "replicate 2 c = [c, c]" "replicate 3 c = [c, c, c]"
  "replicate 5 c = [c, c, c, c, c]"
  by (simp_all add: numeral_eq_Suc)

lemma entry_call_dispatch:
  assumes "(name, n, impl) \<in> set dispatch_table_spec"
  shows "entry_call w name args st = dispatch (replicate n (CHR ''s'')) impl w args st"
proof -
  from assms have
    "(name, n, impl) = (''gofile_upload'', 1, ''gofile_upload_func'') \<or>
     (name, n, impl) = (''run_sort'', 1, ''run_sort'') \<or>
     (name, n, impl) = (''run_filter'', 1, ''run_filter'') \<or>
     (name, n, impl) = (''run_dedup'', 1, ''run_dedup'') \<or>
     (name, n, impl) = (''run_split'', 1, ''run_split'') \<or>
     (name, n, impl) = (''run_remove'', 2, ''run_remove'') \<or>
     (name, n, impl) = (''discord_bot'', 5, ''discord_bot'') \<or>
     (name, n, impl) = (''telegram_bot'', 3, ''telegram_bot'') \<or>
     (name, n, impl) = (''run_scraper'', 1, ''run_scraper'') \<or>
     (name, n, impl) = (''run_combo'', 1, ''run_combo'') \<or>
     (name, n, impl) = (''run_captcha'', 1, ''run_captcha'')"
    unfolding dispatch_table_spec_def by (simp only: set_simps insert_iff empty_iff simp_thms)
  then show ?thesis
    by (elim disjE; simp only: prod.inject; elim conjE;
        simp add: entry_call_def XToolsMethods_def ffi_dispatch replicate_small)
qed

lemma c_str_no_NUL: "no_NUL s \<Longrightarrow> c_str s = s"
  unfolding c_str_def no_NUL_def by (induction s) simp_all

lemma PyUnicode_FromString_text: "no_NUL s \<Longrightarrow> PyUnicode_FromString s = PyUnicode s"
  by (simp add: PyUnicode_FromString_def c_str_no_NUL)

lemma convert_items_text:
  "list_all is_text args \<Longrightarrow>
   \<exists>ss. convert_items (replicate (length args) (CHR ''s'')) args = Inr ss \<and>
        map PyUnicode_FromString ss = args"
proof (induction args)
  case Nil
  show ?case by simp
next
  case (Cons v vs)
  then obtain ss where ss: "convert_items (replicate (length vs) (CHR ''s'')) vs = Inr ss"
      "map PyUnicode_FromString ss = vs"
    by auto
  from Cons.prems obtain s where v: "v = PyUnicode s" "no_NUL s"
    by (cases v) auto
  show ?case
    by (simp add: v ss PyUnicode_FromString_text)
qed


lemma parse_text_tuple:
  assumes "text_tuple n args"
  shows "\<exists>ss. PyArg_ParseTuple args (replicate n (CHR ''s'')) st = (Some ss, st) \<and>
              map PyUnicode_FromString ss = args"
proof -
  from assms have n: "length args = n" and t: "list_all is_text args"
    by (simp_all add: text_tuple_def)
  from convert_items_text [OF t] n show ?thesis
    by (auto simp: PyArg_ParseTuple_def)
qed


lemma dispatch_text_tuple:
  "text_tuple n args \<Longrightarrow> dispatch (replicate n (CHR ''s'')) impl w args st = call_tool w impl args st"
  using parse_text_tuple [of n args st]
  by (auto simp: dispatch_def PyTuple_Pack_def)

text \<open>
  Every path through \<open>call_tool\<close>, with the state it leaves. The search path is
  extended before anything else happens; \<^verbatim>\<open>PyErr_Print\<close> runs after a failed import
  and after a failed call, and on no other path.
\<close>

lemma call_tool_outcome:
  "call_tool w func_name args st =
     (case import_module w (sys_path st @ [sibling_dir]) ''xtools_ffi_module'' of
        Inl e \<Rightarrow>
          if e = SystemExit then
            (None,
             st\<lparr>sys_path := sys_path st @ [sibling_dir], error_indicator := Some SystemExit,
                events := events st @ [Import ''xtools_ffi_module''], terminated := True\<rparr>)
          else
            (Some (PyUnicode module_not_found_text),
             st\<lparr>sys_path := sys_path st @ [sibling_dir], error_indicator := None,
                stderr := stderr st @ [e],
                events := events st @ [Import ''xtools_ffi_module'']\<rparr>)
      | Inr m \<Rightarrow>
          (case map_of m func_name of
             None \<Rightarrow>
               (Some (PyUnicode function_not_found_text),
                st\<lparr>sys_path := sys_path st @ [sibling_dir],
                   error_indicator := Some AttributeError,
                   events := events st @ [Import ''xtools_ffi_module'', GetAttr func_name]\<rparr>)
           | Some (PyFunction k) \<Rightarrow>
               (case call_function w k args of
                  Inl e \<Rightarrow>
                    if e = SystemExit then
                      (None,
                       st\<lparr>sys_path := sys_path st @ [sibling_dir],
                          error_indicator := Some SystemExit,
                          events := events st @
                            [Import ''xtools_ffi_module'', GetAttr func_name, Call k args],
                          terminated := True\<rparr>)
                    else
                      (Some (PyUnicode call_failed_text),
                       st\<lparr>sys_path := sys_path st @ [sibling_dir], error_indicator := None,
                          stderr := stderr st @ [e],
                          events := events st @
                            [Import ''xtools_ffi_module'', GetAttr func_name, Call k args]\<rparr>)
                | Inr r \<Rightarrow>
                    (Some r,
                     st\<lparr>sys_path := sys_path st @ [sibling_dir],
                        events := events st @
                          [Import ''xtools_ffi_module'', GetAttr func_name, Call k args]\<rparr>))
           | Some v \<Rightarrow>
               (Some (PyUnicode function_not_found_text),
                st\<lparr>sys_path := sys_path st @ [sibling_dir],
                   events := events st @ [Import ''xtools_ffi_module'', GetAttr func_name]\<rparr>)))"
  by (simp add: call_tool_def PyUnicode_FromString_def c_str_def PyList_Append_sys_path_def
        PyImport_ImportModule_def PyObject_GetAttrString_def PyObject_CallObject_def
        PyErr_Print_def sibling_dir_def module_not_found_text_def
        function_not_found_text_def call_failed_text_def Let_def
      split: sum.split option.split pyobj.split)


text \<open>
  Where the failed import or the failed call raised \<^verbatim>\<open>SystemExit\<close>, \<^verbatim>\<open>PyErr_Print\<close>
  ends the process and \<open>call_tool\<close> returns nothing.
\<close>

lemma call_tool_exits_on_SystemExit:
  assumes "import_module w (sys_path st @ [sibling_dir]) ''xtools_ffi_module'' = Inr m"
    and "map_of m func_name = Some (PyFunction k)"
    and "call_function w k args = Inl SystemExit"
  shows "fst (call_tool w func_name args st) = None \<and>
         terminated (snd (call_tool w func_name args st))"
  by (simp add: call_tool_outcome assms)

text \<open>
  On the path where the attribute is missing, the exception \<^verbatim>\<open>PyObject_GetAttrString\<close>
  raised is still pending when \<open>call_tool\<close> returns its text; after a failed import or
  a failed call \<^verbatim>\<open>PyErr_Print\<close> has cleared it.
\<close>

lemma call_tool_missing_attribute_pending:
  assumes "import_module w (sys_path st @ [sibling_dir]) ''xtools_ffi_module'' = Inr m"
    and "map_of m func_name = None"
  shows "fst (call_tool w func_name args st) = Some (PyUnicode function_not_found_text) \<and>
         error_indicator (snd (call_tool w func_name args st)) = Some AttributeError"
  by (simp add: call_tool_outcome assms)

subsection \<open>Entry points through the method table\<close>

lemma table_names: "map fst XToolsMethods = map fst dispatch_table_spec"
  by (simp add: XToolsMethods_def dispatch_table_spec_def)


lemma entry_call_text_tuple:
  assumes "(name, n, impl) \<in> set dispatch_table_spec" "text_tuple n args"
  shows "entry_call w name args st = call_tool w impl args st"
  by (simp only: entry_call_dispatch [OF assms(1)] dispatch_text_tuple [OF assms(2)])



subsection \<open>What the host receives\<close>

lemma check_raised:
  "Py_CheckFunctionResult (None, st\<lparr>error_indicator := Some e\<rparr>) =
     (None, st\<lparr>error_indicator := Some e\<rparr>)"
  by (simp add: Py_CheckFunctionResult_def)


lemma check_events: "events (snd (Py_CheckFunctionResult res)) = events (snd res)"
  by (cases res) (simp add: Py_CheckFunctionResult_def split: option.split)

text \<open>
  The host's view of every path through a call with a correctly shaped tuple. On the
  missing-attribute path the pending exception makes the interpreter raise
  \<^verbatim>\<open>SystemError\<close> in place of the text.
\<close>

lemma host_call_outcome:
  assumes "(name, n, impl) \<in> set dispatch_table_spec" "text_tuple n args" "at_entry st"
  shows "host_call w name args st =
     (case import_module w (sys_path st @ [sibling_dir]) ''xtools_ffi_module'' of
        Inl e \<Rightarrow>
          if e = SystemExit then
            (None,
             st\<lparr>sys_path := sys_path st @ [sibling_dir], error_indicator := Some SystemExit,
                events := events st @ [Import ''xtools_ffi_module''], terminated := True\<rparr>)
          else
            (Some (PyUnicode module_not_found_text),
             st\<lparr>sys_path := sys_path st @ [sibling_dir], error_indicator := None,
                stderr := stderr st @ [e],
                events := events st @ [Import ''xtools_ffi_module'']\<rparr>)
      | Inr m \<Rightarrow>
          (case map_of m impl of
             None \<Rightarrow>
               (None,
                st\<lparr>sys_path := sys_path st @ [sibling_dir],
                   error_indicator := Some SystemError,
                   events := events st @ [Import ''xtools_ffi_module'', GetAttr impl]\<rparr>)
           | Some (PyFunction k) \<Rightarrow>
               (case call_function w k args of
                  Inl e \<Rightarrow>
                    if e = SystemExit then
                      (None,
                       st\<lparr>sys_path := sys_path st @ [sibling_dir],
                          error_indicator := Some SystemExit,
                          events := events st @
                            [Import ''xtools_ffi_module'', GetAttr impl, Call k args],
                          terminated := True\<rparr>)
                    else
                      (Some (PyUnicode call_failed_text),
                       st\<lparr>sys_path := sys_path st @ [sibling_dir], error_indicator := None,
                          stderr := stderr st @ [e],
                          events := events st @
                            [Import ''xtools_ffi_module'', GetAttr impl, Call k args]\<rparr>)
                | Inr r \<Rightarrow>
                    (Some r,
                     st\<lparr>sys_path := sys_path st @ [sibling_dir],
                        events := events st @
                          [Import ''xtools_ffi_module'', GetAttr impl, Call k args]\<rparr>))
           | Some v \<Rightarrow>
               (Some (PyUnicode function_not_found_text),
                st\<lparr>sys_path := sys_path st @ [sibling_dir],
                   events := events st @ [Import ''xtools_ffi_module'', GetAttr impl]\<rparr>)))"
  using assms(3)
  by (simp add: host_call_def entry_call_text_tuple [OF assms(1,2)] call_tool_outcome
        Py_CheckFunctionResult_def at_entry_def
      split: sum.split option.split pyobj.split)





subsection \<open>Runs of calls\<close>




lemma count_list_replicate_same: "count_list (replicate n x) x = n"
  by (induction n) simp_all

lemma text_tuple_map:
  "list_all no_NUL ts \<Longrightarrow> text_tuple (length ts) (map PyUnicode ts)"
  by (induction ts) (simp_all add: text_tuple_def)

lemma table_members:
  "(''run_remove'', 2, ''run_remove'') \<in> set dispatch_table_spec"
  "(''discord_bot'', 5, ''discord_bot'') \<in> set dispatch_table_spec"
  "(''run_sort'', 1, ''run_sort'') \<in> set dispatch_table_spec"
  "(''run_split'', 1, ''run_split'') \<in> set dispatch_table_spec"
  "(''run_dedup'', 1, ''run_dedup'') \<in> set dispatch_table_spec"
  "(''run_filter'', 1, ''run_filter'') \<in> set dispatch_table_spec"
  "(''run_captcha'', 1, ''run_captcha'') \<in> set dispatch_table_spec"
  by (simp_all add: dispatch_table_spec_def)

lemma interp0_at_entry: "at_entry interp0"
  by (simp add: at_entry_def interp0_def)

lemma demo_import:
  "import_module demo_sibling (sys_path interp0 @ [sibling_dir]) ''xtools_ffi_module'' = Inr demo_module"
  by (simp add: demo_sibling_def interp0_def sibling_dir_def)





section \<open>Facts about the formatter and the recogniser\<close>

lemma plain_char_not_NUL: "plain_char c \<Longrightarrow> c \<noteq> CHR 0x00"
proof
  assume a: "plain_char c" and "c = CHR 0x00"
  then have "(of_char c :: nat) = 0" by simp
  with a show False by (simp add: plain_char_def)
qed

lemma plain_char_string_body:
  "plain_char c \<Longrightarrow> string_body (c # cs) = map_option (\<lambda>(b, r). (c # b, r)) (string_body cs)"
  by (simp add: plain_char_def)

lemma c_str_plain: "plain_text s \<Longrightarrow> c_str s = s"
  by (induction s) (simp_all add: plain_text_def c_str_def plain_char_not_NUL)

lemma string_body_plain: "plain_text s \<Longrightarrow> string_body (s @ CHR 0x22 # r) = Some (s, r)"
proof (induction s)
  case Nil
  show ?case by simp
next
  case (Cons c s)
  then have c: "plain_char c" and s: "plain_text s" by (simp_all add: plain_text_def)
  show ?case
    by (simp only: append_Cons plain_char_string_body [OF c] Cons.IH [OF s]) simp
qed

lemma fuel_split:
  "10 \<le> n \<Longrightarrow> \<exists>m. n = Suc (Suc (Suc (Suc (Suc (Suc (Suc (Suc (Suc (Suc m)))))))))"
  by presburger

lemma CheckXboxAccount_text:
  "CheckXboxAccount a b =
     take 1023 (''{\"success\":true,\"message\":\"Android check\",\"api_key\":\"'' @ c_str a @
                ''\",\"combo_file\":\"'' @ c_str b @ ''\"}'')"
  by (simp add: CheckXboxAccount_def snprintf_def)

lemma InitializeToolbot_text:
  "InitializeToolbot a b =
     take 1023 (''{\"success\":true,\"message\":\"Toolbot initialized\",\"data_dir\":\"'' @ c_str a @
                ''\",\"wordlist_dir\":\"'' @ c_str b @ ''\"}'')"
  by (simp add: InitializeToolbot_def snprintf_def)

lemma RunTelegramBot_text:
  "RunTelegramBot a h p =
     take 1023 (''{\"success\":true,\"message\":\"Telegram bot\",\"api_id\":\"'' @ c_str a @ ''\"}'')"
  by (simp add: RunTelegramBot_def snprintf_def)

lemma parse_CheckXboxAccount:
  assumes "plain_text a" "plain_text b" "10 \<le> n"
  shows "parse_value n (''{\"success\":true,\"message\":\"Android check\",\"api_key\":\"'' @ a @
                        ''\",\"combo_file\":\"'' @ b @ ''\"}'') =
         Some (JObject [(''success'', JBool True), (''message'', JString ''Android check''),
                        (''api_key'', JString a), (''combo_file'', JString b)], [])"
proof -
  from fuel_split [OF assms(3)] obtain m
    where n: "n = Suc (Suc (Suc (Suc (Suc (Suc (Suc (Suc (Suc (Suc m)))))))))" ..
  show ?thesis unfolding n
    by (simp add: expect_def skip_ws_def is_ws_def
          string_body_plain [OF assms(1)] string_body_plain [OF assms(2)])
qed

lemma parse_InitializeToolbot:
  assumes "plain_text a" "plain_text b" "10 \<le> n"
  shows "parse_value n (''{\"success\":true,\"message\":\"Toolbot initialized\",\"data_dir\":\"'' @ a @
                        ''\",\"wordlist_dir\":\"'' @ b @ ''\"}'') =
         Some (JObject [(''success'', JBool True), (''message'', JString ''Toolbot initialized''),
                        (''data_dir'', JString a), (''wordlist_dir'', JString b)], [])"
proof -
  from fuel_split [OF assms(3)] obtain m
    where n: "n = Suc (Suc (Suc (Suc (Suc (Suc (Suc (Suc (Suc (Suc m)))))))))" ..
  show ?thesis unfolding n
    by (simp add: expect_def skip_ws_def is_ws_def
          string_body_plain [OF assms(1)] string_body_plain [OF assms(2)])
qed

lemma parse_RunTelegramBot:
  assumes "plain_text a" "10 \<le> n"
  shows "parse_value n (''{\"success\":true,\"message\":\"Telegram bot\",\"api_id\":\"'' @ a @ ''\"}'') =
         Some (JObject [(''success'', JBool True), (''message'', JString ''Telegram bot''),
                        (''api_id'', JString a)], [])"
proof -
  from fuel_split [OF assms(2)] obtain m
    where n: "n = Suc (Suc (Suc (Suc (Suc (Suc (Suc (Suc (Suc (Suc m)))))))))" ..
  show ?thesis unfolding n
    by (simp add: expect_def skip_ws_def is_ws_def string_body_plain [OF assms(1)])
qed

lemma envelope_fields_parsed:
  assumes "parse_value (Suc (length s)) s = Some (JObject ((''success'', JBool t) # kvs), [])"
  shows "envelope_fields s = Some ((''success'', JBool t) # kvs)"
  by (simp only: envelope_fields_def parse_json_def assms) (simp add: skip_ws_def)

lemma fields_CheckXboxAccount:
  assumes "plain_text a" "plain_text b" "length a + length b \<le> 952"
  shows "envelope_fields (CheckXboxAccount a b) =
         Some [(''success'', JBool True), (''message'', JString ''Android check''),
               (''api_key'', JString a), (''combo_file'', JString b)]"
proof -
  let ?t = "''{\"success\":true,\"message\":\"Android check\",\"api_key\":\"'' @ a @
            ''\",\"combo_file\":\"'' @ b @ ''\"}''"
  have len: "length ?t = 71 + length a + length b" by simp
  have "take 1023 ?t = ?t"
    using assms(3) by (intro take_all) (simp only: len)
  then have t: "CheckXboxAccount a b = ?t"
    by (simp only: CheckXboxAccount_text c_str_plain [OF assms(1)] c_str_plain [OF assms(2)])
  show ?thesis
    unfolding t
    by (rule envelope_fields_parsed, rule parse_CheckXboxAccount [OF assms(1,2)])
       simp
qed

lemma fields_InitializeToolbot:
  assumes "plain_text a" "plain_text b" "length a + length b \<le> 943"
  shows "envelope_fields (InitializeToolbot a b) =
         Some [(''success'', JBool True), (''message'', JString ''Toolbot initialized''),
               (''data_dir'', JString a), (''wordlist_dir'', JString b)]"
proof -
  let ?t = "''{\"success\":true,\"message\":\"Toolbot initialized\",\"data_dir\":\"'' @ a @
            ''\",\"wordlist_dir\":\"'' @ b @ ''\"}''"
  have len: "length ?t = 80 + length a + length b" by simp
  have "take 1023 ?t = ?t"
    using assms(3) by (intro take_all) (simp only: len)
  then have t: "InitializeToolbot a b = ?t"
    by (simp only: InitializeToolbot_text c_str_plain [OF assms(1)] c_str_plain [OF assms(2)])
  show ?thesis
    unfolding t
    by (rule envelope_fields_parsed, rule parse_InitializeToolbot [OF assms(1,2)])
       simp
qed

lemma fields_RunTelegramBot:
  assumes "plain_text a" "length a \<le> 970"
  shows "envelope_fields (RunTelegramBot a h p) =
         Some [(''success'', JBool True), (''message'', JString ''Telegram bot''),
               (''api_id'', JString a)]"
proof -
  let ?t = "''{\"success\":true,\"message\":\"Telegram bot\",\"api_id\":\"'' @ a @ ''\"}''"
  have len: "length ?t = 53 + length a" by simp
  have "take 1023 ?t = ?t"
    using assms(2) by (intro take_all) (simp only: len)
  then have t: "RunTelegramBot a h p = ?t"
    by (simp only: RunTelegramBot_text c_str_plain [OF assms(1)])
  show ?thesis
    unfolding t
    by (rule envelope_fields_parsed, rule parse_RunTelegramBot [OF assms(1)])
       simp
qed

lemma failure_texts_fields:
  "envelope_fields module_not_found_text =
     Some [(''success'', JBool False), (''error'', JString ''Module not found'')]"
  "envelope_fields function_not_found_text =
     Some [(''success'', JBool False), (''error'', JString ''Function not found'')]"
  "envelope_fields call_failed_text =
     Some [(''success'', JBool False), (''error'', JString ''Call failed'')]"
  by (simp_all add: module_not_found_text_def function_not_found_text_def call_failed_text_def
        envelope_fields_def parse_json_def expect_def skip_ws_def is_ws_def)

text \<open>
  The text with the unescaped quote is rejected whatever bound the descent is given: the
  parse stops at the character after the string literal that the quote closed early.
\<close>

lemma unescaped_quote_rejected:
  assumes "10 \<le> n"
  shows "parse_value n (CheckXboxAccount ''a\"b'' ''combo.txt'') = None"
proof -
  from fuel_split [OF assms] obtain m
    where n: "n = Suc (Suc (Suc (Suc (Suc (Suc (Suc (Suc (Suc (Suc m)))))))))" ..
  show ?thesis unfolding n
    by (simp add: CheckXboxAccount_def snprintf_def c_str_def expect_def skip_ws_def is_ws_def)
qed


section \<open>Claims about the mobile variant\<close>

subsection \<open>C6: envelopes of the core and escaping\<close>

text \<open>
  Claim C6 says that every envelope the core produces is a syntactically valid document
  for every input, because string values are escaped. The mobile variant copies its
  arguments into the text as they are: with the API key \<^verbatim>\<open>a"b\<close> the text returned by
  \<open>CheckXboxAccount\<close> is not a well-formed envelope (the quote ends the string literal
  early).
\<close>

theorem unescaped_quote_breaks_envelope:
  "\<not> well_formed_envelope (CheckXboxAccount ''a\"b'' ''combo.txt'')"
  by (simp add: well_formed_envelope_def CheckXboxAccount_def snprintf_def c_str_def
        envelope_fields_def parse_json_def expect_def skip_ws_def is_ws_def)

text \<open>
  Claim C6 as amended: each envelope of the mobile variant is the first 1023 bytes of its
  template with the arguments inserted verbatim, without escaping. It is a well-formed
  envelope whenever the arguments are plain text (printable ASCII without quote and
  backslash) and the whole text fits into the 1023 bytes the buffer holds. The three
  texts the full variant builds itself are fixed and well formed.
\<close>

theorem mobile_envelopes_verbatim:
  "CheckXboxAccount a b =
     take 1023 (''{\"success\":true,\"message\":\"Android check\",\"api_key\":\"'' @ c_str a @
                ''\",\"combo_file\":\"'' @ c_str b @ ''\"}'') \<and>
   InitializeToolbot d l =
     take 1023 (''{\"success\":true,\"message\":\"Toolbot initialized\",\"data_dir\":\"'' @ c_str d @
                ''\",\"wordlist_dir\":\"'' @ c_str l @ ''\"}'') \<and>
   RunTelegramBot i h p =
     take 1023 (''{\"success\":true,\"message\":\"Telegram bot\",\"api_id\":\"'' @ c_str i @ ''\"}'') \<and>
   (plain_text a \<and> plain_text b \<and> length a + length b \<le> 952 \<longrightarrow>
      well_formed_envelope (CheckXboxAccount a b)) \<and>
   (plain_text d \<and> plain_text l \<and> length d + length l \<le> 943 \<longrightarrow>
      well_formed_envelope (InitializeToolbot d l)) \<and>
   (plain_text i \<and> length i \<le> 970 \<longrightarrow> well_formed_envelope (RunTelegramBot i h p)) \<and>
   well_formed_envelope module_not_found_text \<and>
   well_formed_envelope function_not_found_text \<and>
   well_formed_envelope call_failed_text"
proof -
  have w1: "plain_text a \<and> plain_text b \<and> length a + length b \<le> 952 \<longrightarrow>
      well_formed_envelope (CheckXboxAccount a b)"
    using fields_CheckXboxAccount [of a b] by (simp add: well_formed_envelope_def)
  have w2: "plain_text d \<and> plain_text l \<and> length d + length l \<le> 943 \<longrightarrow>
      well_formed_envelope (InitializeToolbot d l)"
    using fields_InitializeToolbot [of d l] by (simp add: well_formed_envelope_def)
  have w3: "plain_text i \<and> length i \<le> 970 \<longrightarrow> well_formed_envelope (RunTelegramBot i h p)"
    using fields_RunTelegramBot [of i h p] by (simp add: well_formed_envelope_def)
  have w4: "well_formed_envelope module_not_found_text"
    "well_formed_envelope function_not_found_text" "well_formed_envelope call_failed_text"
    by (simp_all add: well_formed_envelope_def failure_texts_fields)
  note t = CheckXboxAccount_text [of a b] InitializeToolbot_text [of d l]
    RunTelegramBot_text [of i h p]
  show ?thesis
    by (intro conjI) (rule t w1 w2 w3 w4)+
qed

text \<open>Claim C6, an instance of the amended statement with all its conditions met.\<close>

theorem mobile_envelopes_verbatim_witness:
  "plain_text ''KEY1'' \<and> plain_text ''combo.txt'' \<and> length ''KEY1'' + length ''combo.txt'' \<le> (952 :: nat) \<and>
   well_formed_envelope (CheckXboxAccount ''KEY1'' ''combo.txt'') \<and>
   plain_text ''/data'' \<and> plain_text ''/data/words'' \<and> length ''/data'' + length ''/data/words'' \<le> (943 :: nat) \<and>
   well_formed_envelope (InitializeToolbot ''/data'' ''/data/words'') \<and>
   plain_text ''12345'' \<and> length ''12345'' \<le> (970 :: nat) \<and>
   well_formed_envelope (RunTelegramBot ''12345'' ''hash-A'' ''+15550100'')"
proof -
  have p: "plain_text ''KEY1''" "plain_text ''combo.txt''" "plain_text ''/data''"
    "plain_text ''/data/words''" "plain_text ''12345''"
    by (simp_all add: plain_text_def plain_char_def)
  have l: "length ''KEY1'' + length ''combo.txt'' \<le> (952 :: nat)"
    "length ''/data'' + length ''/data/words'' \<le> (943 :: nat)" "length ''12345'' \<le> (970 :: nat)"
    by simp_all
  from mobile_envelopes_verbatim
         [of "''KEY1''" "''combo.txt''" "''/data''" "''/data/words''" "''12345''" "''hash-A''" "''+15550100''"]
       p l
  show ?thesis by blast
qed

subsection \<open>C7: the account check echoes its inputs\<close>

text \<open>
  Claim C7: \<open>CheckXboxAccount\<close> called with \<^verbatim>\<open>("KEY1", "combo.txt")\<close> returns an envelope
  with \<open>success\<close> true whose fields \<open>api_key\<close> and \<open>combo_file\<close> are the two inputs.
\<close>

theorem CheckXboxAccount_echoes_KEY1:
  "CheckXboxAccount ''KEY1'' ''combo.txt'' =
     ''{\"success\":true,\"message\":\"Android check\",\"api_key\":\"KEY1\",\"combo_file\":\"combo.txt\"}'' \<and>
   envelope_fields (CheckXboxAccount ''KEY1'' ''combo.txt'') =
     Some [(''success'', JBool True), (''message'', JString ''Android check''),
           (''api_key'', JString ''KEY1''), (''combo_file'', JString ''combo.txt'')]"
proof
  show "CheckXboxAccount ''KEY1'' ''combo.txt'' =
     ''{\"success\":true,\"message\":\"Android check\",\"api_key\":\"KEY1\",\"combo_file\":\"combo.txt\"}''"
    by (simp add: CheckXboxAccount_def snprintf_def c_str_def)
  show "envelope_fields (CheckXboxAccount ''KEY1'' ''combo.txt'') =
     Some [(''success'', JBool True), (''message'', JString ''Android check''),
           (''api_key'', JString ''KEY1''), (''combo_file'', JString ''combo.txt'')]"
    by (rule fields_CheckXboxAccount) (simp_all add: plain_text_def plain_char_def)
qed

subsection \<open>C10: the telegram entry reads its first argument only\<close>

text \<open>
  Claim C10: the text \<open>RunTelegramBot\<close> returns depends on \<open>api_id\<close> alone. Two calls
  with the same \<open>api_id\<close> return the same text whatever \<open>api_hash\<close> and \<open>phone\<close> are;
  the text is built from the template and \<open>api_id\<close> and nothing else, so neither of the
  other two values is carried by it; and when it is an envelope its fields are
  \<open>success\<close>, \<open>message\<close> and \<open>api_id\<close>.
\<close>

theorem RunTelegramBot_depends_on_api_id_only:
  "RunTelegramBot api_id api_hash phone = RunTelegramBot api_id api_hash' phone' \<and>
   RunTelegramBot api_id api_hash phone =
     take 1023 (''{\"success\":true,\"message\":\"Telegram bot\",\"api_id\":\"'' @ c_str api_id @ ''\"}'') \<and>
   (plain_text api_id \<and> length api_id \<le> 970 \<longrightarrow>
      envelope_fields (RunTelegramBot api_id api_hash phone) =
        Some [(''success'', JBool True), (''message'', JString ''Telegram bot''),
              (''api_id'', JString api_id)])"
proof (intro conjI)
  show "RunTelegramBot api_id api_hash phone = RunTelegramBot api_id api_hash' phone'"
    by (simp add: RunTelegramBot_def)
  show "RunTelegramBot api_id api_hash phone =
     take 1023 (''{\"success\":true,\"message\":\"Telegram bot\",\"api_id\":\"'' @ c_str api_id @ ''\"}'')"
    by (rule RunTelegramBot_text)
  show "plain_text api_id \<and> length api_id \<le> 970 \<longrightarrow>
      envelope_fields (RunTelegramBot api_id api_hash phone) =
        Some [(''success'', JBool True), (''message'', JString ''Telegram bot''),
              (''api_id'', JString api_id)]"
    using fields_RunTelegramBot [of api_id api_hash phone] by blast
qed

text \<open>Claim C10, an instance: same \<open>api_id\<close>, different \<open>api_hash\<close> and \<open>phone\<close>.\<close>

theorem RunTelegramBot_depends_on_api_id_only_witness:
  "RunTelegramBot ''12345'' ''hash-A'' ''+15550100'' = RunTelegramBot ''12345'' ''hash-B'' ''+15550199'' \<and>
   plain_text ''12345'' \<and> length ''12345'' \<le> (970 :: nat) \<and>
   envelope_fields (RunTelegramBot ''12345'' ''hash-A'' ''+15550100'') =
     Some [(''success'', JBool True), (''message'', JString ''Telegram bot''),
           (''api_id'', JString ''12345'')]"
proof -
  have p: "plain_text ''12345''" by (simp add: plain_text_def plain_char_def)
  have l: "length ''12345'' \<le> (970 :: nat)" by simp
  from RunTelegramBot_depends_on_api_id_only
         [of "''12345''" "''hash-A''" "''+15550100''" "''hash-B''" "''+15550199''"] p l
  show ?thesis by blast
qed

section \<open>Claims about the stub variant\<close>

subsection \<open>C8: exported no-ops and the load callback\<close>

text \<open>
  Claim C8: the stub exports the eleven entry-point names of the specification's table,
  each as a function that returns nothing and leaves the state as it was whatever it is
  called with, and \<open>DllMain\<close> returns \<^verbatim>\<open>TRUE\<close> (a non-zero value) for all its arguments.
\<close>

theorem stub_entry_points_do_nothing:
  "map fst (stub_exports :: (string \<times> ('a \<Rightarrow> 's \<Rightarrow> unit \<times> 's)) list) = map fst dispatch_table_spec \<and>
   map (\<lambda>(name, f). f (args :: 'a) (s :: 's)) stub_exports = replicate 11 ((), s) \<and>
   DllMain hinstDLL fdwReason lpvReserved = TRUE \<and> TRUE \<noteq> 0"
  by (simp add: stub_exports_def dispatch_table_spec_def DllMain_def TRUE_def numeral_eq_Suc
        gofile_upload_def run_sort_def run_filter_def run_dedup_def run_split_def
        run_remove_def discord_bot_def telegram_bot_def run_scraper_def run_combo_def
        run_captcha_def)

section \<open>Claims about the full variant\<close>

subsection \<open>C1: what the host receives from an entry point\<close>




subsection \<open>C2: wrong arity\<close>

text \<open>
  Claim C2 says that a tuple of the wrong arity yields an envelope with the error
  \<open>bad_arguments\<close> and never reaches the locator. \<open>discord_bot\<close> called with four
  arguments hands the host \<^verbatim>\<open>NULL\<close>, not that envelope.
\<close>

theorem wrong_arity_no_envelope:
  "fst (host_call demo_sibling ''discord_bot''
          [PyUnicode ''tok'', PyUnicode ''imap.example.org'', PyUnicode ''user'', PyUnicode ''pass'']
          interp0) = None \<and>
   fst (host_call demo_sibling ''discord_bot''
          [PyUnicode ''tok'', PyUnicode ''imap.example.org'', PyUnicode ''user'', PyUnicode ''pass'']
          interp0) \<noteq> Some (PyUnicode ''{\"success\":false,\"error\":\"bad_arguments\"}'')"
  by (simp add: host_call_def entry_call_def XToolsMethods_def ffi_discord_bot_def
        PyArg_ParseTuple_def check_raised)

text \<open>
  Claim C2 as amended: for every entry point of the table, a tuple of the wrong arity
  makes the host receive \<^verbatim>\<open>NULL\<close> with a type error pending, and the locator is not
  reached: the state is otherwise as before, so nothing was appended to the search path,
  and the record of what was asked of the sibling is unchanged, so nothing was imported,
  no attribute was looked up and nothing was called.
\<close>

theorem wrong_arity_returns_NULL:
  assumes "(name, n, impl) \<in> set dispatch_table_spec" and "length args \<noteq> n"
  shows "host_call w name args st = (None, st\<lparr>error_indicator := Some TypeError\<rparr>) \<and>
         sys_path (snd (host_call w name args st)) = sys_path st \<and>
         events (snd (host_call w name args st)) = events st"
  using assms(2)
  by (simp add: host_call_def entry_call_dispatch [OF assms(1)] dispatch_def PyArg_ParseTuple_def
        check_raised)

text \<open>
  Claim C2, an instance of the amended statement: four arguments for \<open>discord_bot\<close>
  leave the record empty; for contrast, five arguments leave an import, a lookup and a
  call on it.
\<close>

theorem wrong_arity_returns_NULL_witness:
  "host_call demo_sibling ''discord_bot''
     [PyUnicode ''tok'', PyUnicode ''imap.example.org'', PyUnicode ''user'', PyUnicode ''pass'']
     interp0 =
   (None, interp0\<lparr>error_indicator := Some TypeError\<rparr>) \<and>
   events (snd (host_call demo_sibling ''discord_bot''
     [PyUnicode ''tok'', PyUnicode ''imap.example.org'', PyUnicode ''user'', PyUnicode ''pass'']
     interp0)) = [] \<and>
   events (snd (host_call demo_sibling ''discord_bot''
     [PyUnicode ''tok'', PyUnicode ''imap.example.org'', PyUnicode ''user'', PyUnicode ''pass'',
      PyUnicode ''42'']
     interp0)) = [Import ''xtools_ffi_module'', GetAttr ''discord_bot'',
                  Call 4 [PyUnicode ''tok'', PyUnicode ''imap.example.org'', PyUnicode ''user'',
                          PyUnicode ''pass'', PyUnicode ''42'']]"
proof (intro conjI)
  have l: "length [PyUnicode ''tok'', PyUnicode ''imap.example.org'', PyUnicode ''user'',
                   PyUnicode ''pass''] \<noteq> (5 :: nat)"
    by simp
  note w = wrong_arity_returns_NULL [OF table_members(2) l, of demo_sibling interp0]
  from w [THEN conjunct1]
  show "host_call demo_sibling ''discord_bot''
     [PyUnicode ''tok'', PyUnicode ''imap.example.org'', PyUnicode ''user'', PyUnicode ''pass'']
     interp0 =
   (None, interp0\<lparr>error_indicator := Some TypeError\<rparr>)" .
  from w [THEN conjunct2, THEN conjunct2]
  show "events (snd (host_call demo_sibling ''discord_bot''
     [PyUnicode ''tok'', PyUnicode ''imap.example.org'', PyUnicode ''user'', PyUnicode ''pass'']
     interp0)) = []"
    by (simp add: interp0_def)
  have t: "text_tuple 5 [PyUnicode ''tok'', PyUnicode ''imap.example.org'', PyUnicode ''user'',
      PyUnicode ''pass'', PyUnicode ''42'']"
    by (simp add: text_tuple_def no_NUL_def)
  show "events (snd (host_call demo_sibling ''discord_bot''
     [PyUnicode ''tok'', PyUnicode ''imap.example.org'', PyUnicode ''user'', PyUnicode ''pass'',
      PyUnicode ''42'']
     interp0)) = [Import ''xtools_ffi_module'', GetAttr ''discord_bot'',
                  Call 4 [PyUnicode ''tok'', PyUnicode ''imap.example.org'', PyUnicode ''user'',
                          PyUnicode ''pass'', PyUnicode ''42'']]"
    unfolding host_call_outcome [OF table_members(2) t interp0_at_entry]
    by (simp add: demo_module_def demo_sibling_def sibling_dir_def interp0_def)
qed

subsection \<open>C3: the locator's failure texts\<close>




subsection \<open>C4: arguments are forwarded, results come back verbatim\<close>

text \<open>
  Claim C4: the method table has the eleven names of the specification's table; the
  entry point registered under a name of arity \<open>n\<close> hands exactly the \<open>n\<close> text values
  it was called with, in their order, to \<open>call_tool\<close> with the implementation name of
  the table; and when the import, the lookup and the call succeed, the object the
  implementation returned for those values is what the entry function returns and what
  the host receives.
\<close>

theorem entry_points_forward_arguments:
  assumes "(name, n, impl) \<in> set dispatch_table_spec"
    and "length ts = n" and "list_all no_NUL ts"
    and "import_module w (sys_path st @ [sibling_dir]) ''xtools_ffi_module'' = Inr m"
    and "map_of m impl = Some (PyFunction k)"
    and "call_function w k (map PyUnicode ts) = Inr r"
  shows "map fst XToolsMethods = map fst dispatch_table_spec \<and>
         entry_call w name (map PyUnicode ts) st = call_tool w impl (map PyUnicode ts) st \<and>
         fst (entry_call w name (map PyUnicode ts) st) = Some r \<and>
         (at_entry st \<longrightarrow> fst (host_call w name (map PyUnicode ts) st) = Some r)"
proof -
  from text_tuple_map [OF assms(3)] assms(2) have t: "text_tuple n (map PyUnicode ts)" by simp
  have h: "entry_call w name (map PyUnicode ts) st = call_tool w impl (map PyUnicode ts) st"
    by (rule entry_call_text_tuple [OF assms(1) t])
  have c: "fst (call_tool w impl (map PyUnicode ts) st) = Some r"
    by (simp add: call_tool_outcome assms(4,5,6))
  have "at_entry st \<longrightarrow> fst (host_call w name (map PyUnicode ts) st) = Some r"
  proof
    assume e: "at_entry st"
    show "fst (host_call w name (map PyUnicode ts) st) = Some r"
      by (simp add: host_call_outcome [OF assms(1) t e] assms(4,5,6))
  qed
  with h c table_names show ?thesis by simp
qed

text \<open>
  Claim C4, instances: \<open>run_remove\<close> on two arguments against a sibling that answers
  \<^verbatim>\<open>{"success":true,"removed":3}\<close>, and \<open>discord_bot\<close> on five arguments against an
  implementation that returns the tuple it received.
\<close>

theorem entry_points_forward_arguments_witness:
  "fst (entry_call demo_sibling ''run_remove'' [PyUnicode ''/tmp/list.txt'', PyUnicode ''@bad.com''] interp0) =
     Some (PyUnicode ''{\"success\":true,\"removed\":3}'') \<and>
   fst (host_call demo_sibling ''run_remove'' [PyUnicode ''/tmp/list.txt'', PyUnicode ''@bad.com''] interp0) =
     Some (PyUnicode ''{\"success\":true,\"removed\":3}'') \<and>
   fst (host_call demo_sibling ''discord_bot''
          [PyUnicode ''tok'', PyUnicode ''imap.example.org'', PyUnicode ''user'', PyUnicode ''pass'',
           PyUnicode ''42''] interp0) =
     Some (PyTuple [PyUnicode ''tok'', PyUnicode ''imap.example.org'', PyUnicode ''user'',
                    PyUnicode ''pass'', PyUnicode ''42''])"
proof (intro conjI)
  have a: "list_all no_NUL [''/tmp/list.txt'', ''@bad.com'']" by (simp add: no_NUL_def)
  have b: "map_of demo_module ''run_remove'' = Some (PyFunction 0)" by (simp add: demo_module_def)
  have c: "call_function demo_sibling 0 (map PyUnicode [''/tmp/list.txt'', ''@bad.com'']) =
             Inr (PyUnicode ''{\"success\":true,\"removed\":3}'')"
    by (simp add: demo_sibling_def)
  note w = entry_points_forward_arguments [OF table_members(1) _ a demo_import b c, THEN conjunct2, THEN conjunct2]
  from w [THEN conjunct1]
  show "fst (entry_call demo_sibling ''run_remove'' [PyUnicode ''/tmp/list.txt'', PyUnicode ''@bad.com''] interp0) =
     Some (PyUnicode ''{\"success\":true,\"removed\":3}'')"
    by simp
  from w [THEN conjunct2] interp0_at_entry
  show "fst (host_call demo_sibling ''run_remove'' [PyUnicode ''/tmp/list.txt'', PyUnicode ''@bad.com''] interp0) =
     Some (PyUnicode ''{\"success\":true,\"removed\":3}'')"
    by simp
next
  let ?ts = "[''tok'', ''imap.example.org'', ''user'', ''pass'', ''42'']"
  have a: "list_all no_NUL ?ts" by (simp add: no_NUL_def)
  have b: "map_of demo_module ''discord_bot'' = Some (PyFunction 4)" by (simp add: demo_module_def)
  have c: "call_function demo_sibling 4 (map PyUnicode ?ts) = Inr (PyTuple (map PyUnicode ?ts))"
    by (simp add: demo_sibling_def)
  from entry_points_forward_arguments [OF table_members(2) _ a demo_import b c, THEN conjunct2,
         THEN conjunct2, THEN conjunct2] interp0_at_entry
  show "fst (host_call demo_sibling ''discord_bot''
          [PyUnicode ''tok'', PyUnicode ''imap.example.org'', PyUnicode ''user'', PyUnicode ''pass'',
           PyUnicode ''42''] interp0) =
     Some (PyTuple [PyUnicode ''tok'', PyUnicode ''imap.example.org'', PyUnicode ''user'',
                    PyUnicode ''pass'', PyUnicode ''42''])"
    by simp
qed

subsection \<open>C5: the search path\<close>



subsection \<open>C9: results are not validated\<close>

text \<open>
  Claim C9: when the import, the lookup and the call succeed, \<open>call_tool\<close> returns the
  very object the implementation returned, whatever it is; the state changes in the
  search path and in the record of what was asked of the sibling, and in nothing else.
  Nothing checks that the object is an envelope.
\<close>

theorem call_tool_returns_result_as_is:
  assumes "import_module w (sys_path st @ [sibling_dir]) ''xtools_ffi_module'' = Inr m"
    and "map_of m func_name = Some (PyFunction k)"
    and "call_function w k args = Inr r"
  shows "call_tool w func_name args st =
           (Some r,
            st\<lparr>sys_path := sys_path st @ [sibling_dir],
               events := events st @ [Import ''xtools_ffi_module'', GetAttr func_name, Call k args]\<rparr>)"
  by (simp add: call_tool_outcome assms)

text \<open>
  Claim C9, instances: an implementation that returns the number 42 and one that returns
  a broken text; neither is an envelope and both come back as they are.
\<close>

theorem call_tool_returns_result_as_is_witness:
  "\<not> is_envelope (PyLong 42) \<and>
   fst (call_tool demo_sibling ''run_filter'' [PyUnicode ''/tmp/list.txt''] interp0) = Some (PyLong 42) \<and>
   \<not> is_envelope (PyUnicode ''{\"success\":'') \<and>
   fst (call_tool demo_sibling ''run_scraper'' [PyUnicode ''http://example.org''] interp0) =
     Some (PyUnicode ''{\"success\":'')"
proof (intro conjI)
  show "\<not> is_envelope (PyLong 42)" by (simp add: is_envelope_def)
  show "\<not> is_envelope (PyUnicode ''{\"success\":'')"
    by (simp add: is_envelope_def well_formed_envelope_def envelope_fields_def parse_json_def
          expect_def skip_ws_def is_ws_def number_def digits_def is_digit_def)
  have b: "map_of demo_module ''run_filter'' = Some (PyFunction 2)" by (simp add: demo_module_def)
  have c: "call_function demo_sibling 2 [PyUnicode ''/tmp/list.txt''] = Inr (PyLong 42)"
    by (simp add: demo_sibling_def)
  from call_tool_returns_result_as_is [OF demo_import b c]
  show "fst (call_tool demo_sibling ''run_filter'' [PyUnicode ''/tmp/list.txt''] interp0) = Some (PyLong 42)"
    by simp
  have b: "map_of demo_module ''run_scraper'' = Some (PyFunction 3)" by (simp add: demo_module_def)
  have c: "call_function demo_sibling 3 [PyUnicode ''http://example.org''] = Inr (PyUnicode ''{\"success\":'')"
    by (simp add: demo_sibling_def)
  from call_tool_returns_result_as_is [OF demo_import b c]
  show "fst (call_tool demo_sibling ''run_scraper'' [PyUnicode ''http://example.org''] interp0) =
     Some (PyUnicode ''{\"success\":'')"
    by simp
qed

end
